theory Spec2Isabelle
  imports Main
begin

section \<open>The admin entities listing page\<close>

text \<open>
  A shallow embedding of \<^verbatim>\<open>src/app/admin/entities/page.tsx\<close>. Strings are byte
  sequences: a JavaScript string is represented by its UTF-8 encoding, so the literals of
  the source that hold non-ASCII characters are written out byte by byte.
\<close>

subsection \<open>Data model\<close>

text \<open>
  \<^verbatim>\<open>interface Entity\<close>. The element type of \<^verbatim>\<open>registrations\<close> is
  \<^verbatim>\<open>{ type: string; status: string }\<close>; the optional \<^verbatim>\<open>legalForm\<close> is an option.
\<close>

record Registration =
  reg_type :: string
  reg_status :: string

record Entity =
  entity_id :: string
  name :: string
  country :: string
  status :: string
  legalForm :: "string option"
  createdAt :: string
  registrations :: "Registration list"

text \<open>The three \<^verbatim>\<open>useState\<close> cells of the component.\<close>

record FilterState =
  searchTerm :: string
  countryFilter :: string
  statusFilter :: string

subsection \<open>JavaScript values that reach a cell\<close>

text \<open>
  A property read \<^verbatim>\<open>obj[key]\<close> on an object literal yields the own property when there is
  one, else the property of that name inherited from \<^verbatim>\<open>Object.prototype\<close> (a function, or
  for \<^verbatim>\<open>__proto__\<close> the prototype object itself), else \<^verbatim>\<open>undefined\<close>.
\<close>

datatype jsval = Undefined | Str string | Inherited string

fun truthy :: "jsval \<Rightarrow> bool" where
  "truthy Undefined = False"
| "truthy (Str s) = (s \<noteq> [])"
| "truthy (Inherited k) = True"

definition js_or :: "jsval \<Rightarrow> jsval \<Rightarrow> jsval" where
  "js_or a b = (if truthy a then a else b)"

definition objectPrototypeKeys :: "string list" where
  "objectPrototypeKeys =
     [''constructor'', ''__defineGetter__'', ''__defineSetter__'', ''hasOwnProperty'',
      ''__lookupGetter__'', ''__lookupSetter__'', ''isPrototypeOf'',
      ''propertyIsEnumerable'', ''toString'', ''valueOf'', ''__proto__'',
      ''toLocaleString'']"

definition getProp :: "(string \<times> string) list \<Rightarrow> string \<Rightarrow> jsval" where
  "getProp own k =
     (case map_of own k of
        Some v \<Rightarrow> Str v
      | None \<Rightarrow> if k \<in> set objectPrototypeKeys then Inherited k else Undefined)"

subsection \<open>Number to string\<close>

text \<open>
  A template literal converts a non-negative integer (here always an array length) to its
  decimal digits, without leading zeros.
\<close>

definition digit :: "nat \<Rightarrow> char" where
  "digit d = ''0123456789'' ! d"

function decimal :: "nat \<Rightarrow> string" where
  "decimal n = (if n < 10 then [digit n] else decimal (n div 10) @ [digit (n mod 10)])"
  by pat_completeness auto
termination
  by (relation "measure (\<lambda>n. n)") auto

declare decimal.simps [simp del]

text \<open>Reading a digit string back, to state that \<open>decimal\<close> is the decimal numeral.\<close>

definition digit_value :: "char \<Rightarrow> nat" where
  "digit_value c = of_char c - 48"

definition read_decimal :: "string \<Rightarrow> nat" where
  "read_decimal s = foldl (\<lambda>acc c. 10 * acc + digit_value c) 0 s"

subsection \<open>Column derivations\<close>

text \<open>The non-ASCII literals of the source, as UTF-8 bytes.\<close>

definition flagAE :: string where
  "flagAE = [CHR 0xF0, CHR 0x9F, CHR 0x87, CHR 0xA6, CHR 0xF0, CHR 0x9F, CHR 0x87, CHR 0xAA]"

definition flagSA :: string where
  "flagSA = [CHR 0xF0, CHR 0x9F, CHR 0x87, CHR 0xB8, CHR 0xF0, CHR 0x9F, CHR 0x87, CHR 0xA6]"

definition flagEG :: string where
  "flagEG = [CHR 0xF0, CHR 0x9F, CHR 0x87, CHR 0xAA, CHR 0xF0, CHR 0x9F, CHR 0x87, CHR 0xAC]"

definition emDash :: string where
  "emDash = [CHR 0xE2, CHR 0x80, CHR 0x94]"

definition countryMap :: "(string \<times> string) list" where
  "countryMap =
     [(''AE'', flagAE @ '' UAE''), (''SA'', flagSA @ '' KSA''), (''EG'', flagEG @ '' Egypt'')]"

definition statusStyles :: "(string \<times> string) list" where
  "statusStyles =
     [(''ACTIVE'', ''bg-green-100 text-green-800''),
      (''PENDING'', ''bg-yellow-100 text-yellow-800''),
      (''ARCHIVED'', ''bg-gray-100 text-gray-800'')]"

text \<open>\<^verbatim>\<open>countryMap[entity.country] || entity.country\<close>\<close>

definition countryCell :: "Entity \<Rightarrow> jsval" where
  "countryCell entity = js_or (getProp countryMap (country entity)) (Str (country entity))"

text \<open>\<^verbatim>\<open>entity.legalForm || "-"\<close>: an absent and an empty string are both falsy.\<close>

definition legalFormCell :: "Entity \<Rightarrow> string" where
  "legalFormCell entity =
     (case legalForm entity of
        None \<Rightarrow> emDash
      | Some s \<Rightarrow> if s \<noteq> [] then s else emDash)"

text \<open>
  The status badge: the class name is the fixed prefix
  \<^verbatim>\<open>px-2 py-1 rounded text-sm font-medium\<close> followed by the string conversion of
  \<^verbatim>\<open>statusStyles[entity.status] || "bg-gray-100 text-gray-800"\<close>; the badge keeps that
  value, and the text shown, which is \<^verbatim>\<open>entity.status\<close>.
\<close>

definition statusStyle :: "Entity \<Rightarrow> jsval" where
  "statusStyle entity =
     js_or (getProp statusStyles (status entity)) (Str ''bg-gray-100 text-gray-800'')"

definition statusCell :: "Entity \<Rightarrow> jsval \<times> string" where
  "statusCell entity = (statusStyle entity, status entity)"

text \<open>
  \<^verbatim>\<open>entity.registrations.filter((r) => r.status === "VERIFIED").length\<close>, then the
  template \<^verbatim>\<open>`${verified}/${entity.registrations.length}`\<close>.
\<close>

definition registrationsCell :: "Entity \<Rightarrow> string" where
  "registrationsCell entity =
     (let verified = length (filter (\<lambda>r. reg_status r = ''VERIFIED'') (registrations entity))
      in decimal verified @ ''/'' @ decimal (length (registrations entity)))"

subsection \<open>Cache key and request construction\<close>

text \<open>\<^verbatim>\<open>queryKey: ["entities", searchTerm, countryFilter, statusFilter]\<close>\<close>

definition queryKey :: "FilterState \<Rightarrow> string list" where
  "queryKey f = [''entities'', searchTerm f, countryFilter f, statusFilter f]"

text \<open>
  The object handed to \<^verbatim>\<open>URLSearchParams\<close>: each \<^verbatim>\<open>...(x && { k: x })\<close> spreads
  the one-property object when \<^verbatim>\<open>x\<close> is a non-empty string and nothing when it is the
  empty string; the entries keep the order in which the properties were written.
\<close>

definition requestParams :: "FilterState \<Rightarrow> (string \<times> string) list" where
  "requestParams f =
     (if searchTerm f \<noteq> [] then [(''search'', searchTerm f)] else []) @
     (if countryFilter f \<noteq> [] then [(''country'', countryFilter f)] else []) @
     (if statusFilter f \<noteq> [] then [(''status'', statusFilter f)] else [])"

text \<open>
  The string conversion of \<^verbatim>\<open>URLSearchParams\<close> is the
  \<^verbatim>\<open>application/x-www-form-urlencoded\<close> serialisation: a space becomes \<^verbatim>\<open>+\<close>, ASCII
  letters, digits and \<^verbatim>\<open>*-._\<close> stay, every other byte becomes \<^verbatim>\<open>%XX\<close>.
\<close>

definition hexDigit :: "nat \<Rightarrow> char" where
  "hexDigit d = ''0123456789ABCDEF'' ! d"

definition unreserved :: "char \<Rightarrow> bool" where
  "unreserved c =
     (let n = (of_char c :: nat)
      in (48 \<le> n \<and> n \<le> 57) \<or> (65 \<le> n \<and> n \<le> 90) \<or> (97 \<le> n \<and> n \<le> 122)
         \<or> c \<in> set ''*-._'')"

definition encodeByte :: "char \<Rightarrow> string" where
  "encodeByte c =
     (if c = CHR '' '' then ''+''
      else if unreserved c then [c]
      else [CHR ''%'', hexDigit (of_char c div 16), hexDigit (of_char c mod 16)])"

definition urlencode :: "string \<Rightarrow> string" where
  "urlencode s = concat (map encodeByte s)"

fun serialize :: "(string \<times> string) list \<Rightarrow> string" where
  "serialize [] = []"
| "serialize [(k, v)] = urlencode k @ ''='' @ urlencode v"
| "serialize ((k, v) # ps) = urlencode k @ ''='' @ urlencode v @ ''&'' @ serialize ps"

text \<open>\<^verbatim>\<open>`/api/entities?${params}`\<close>\<close>

definition requestUrl :: "FilterState \<Rightarrow> string" where
  "requestUrl f = ''/api/entities?'' @ serialize (requestParams f)"

subsection \<open>The query function\<close>

text \<open>
  A JavaScript \<^verbatim>\<open>Error\<close> is its message. What the transport does is an input of the
  model: \<^verbatim>\<open>fetch\<close> rejects or resolves to a response; reading
  \<^verbatim>\<open>(await response.json()).data\<close> throws (an unreadable body, or a \<^verbatim>\<open>null\<close> result)
  or yields the value of the \<^verbatim>\<open>data\<close> property, \<^verbatim>\<open>undefined\<close> when there is none.
\<close>

datatype JsError = Error (message: string)

datatype BodyOutcome = BodyThrows JsError | BodyData "Entity list option"

record Response =
  ok :: bool
  httpStatus :: nat
  body :: BodyOutcome

datatype FetchOutcome = Rejected JsError | Resolved Response

definition FetchFailed :: JsError where
  "FetchFailed = Error ''Failed to fetch entities''"

definition queryFn :: "(string \<Rightarrow> FetchOutcome) \<Rightarrow> FilterState \<Rightarrow> JsError + Entity list option" where
  "queryFn fetch f =
     (case fetch (requestUrl f) of
        Rejected e \<Rightarrow> Inl e
      | Resolved response \<Rightarrow>
          if \<not> ok response then Inl FetchFailed
          else (case body response of
                  BodyThrows e \<Rightarrow> Inl e
                | BodyData d \<Rightarrow> Inr d))"

subsection \<open>Columns, rows and the rendered view\<close>

text \<open>
  The element tree the component returns, kept to what the properties below observe: which
  parts are present, their order and the values bound to them.
\<close>

datatype Cell =
    Link string string
  | Value jsval
  | Text string
  | Badge jsval string
  | ActionLink string

record Column =
  col_id :: string
  header :: string
  cell :: "Entity \<Rightarrow> Cell"

text \<open>
  The \<^verbatim>\<open>createdAt\<close> column formats a \<^verbatim>\<open>Date\<close> with \<^verbatim>\<open>toLocaleDateString\<close>, which
  depends on the host's time zone; the formatter is a parameter.
\<close>

definition columns :: "(string \<Rightarrow> string) \<Rightarrow> Column list" where
  "columns formatDate =
     [\<lparr>col_id = ''name'', header = ''Business Name'',
        cell = (\<lambda>entity. Link (''/admin/entities/'' @ entity_id entity) (name entity))\<rparr>,
      \<lparr>col_id = ''country'', header = ''Country'',
        cell = (\<lambda>entity. Value (countryCell entity))\<rparr>,
      \<lparr>col_id = ''legalForm'', header = ''Legal Form'',
        cell = (\<lambda>entity. Text (legalFormCell entity))\<rparr>,
      \<lparr>col_id = ''status'', header = ''Status'',
        cell = (\<lambda>entity. Badge (fst (statusCell entity)) (snd (statusCell entity)))\<rparr>,
      \<lparr>col_id = ''registrations'', header = ''Registrations'',
        cell = (\<lambda>entity. Text (registrationsCell entity))\<rparr>,
      \<lparr>col_id = ''createdAt'', header = ''Created'',
        cell = (\<lambda>entity. Text (formatDate (createdAt entity)))\<rparr>,
      \<lparr>col_id = ''actions'', header = ''Actions'',
        cell = (\<lambda>entity. ActionLink (''/admin/entities/'' @ entity_id entity))\<rparr>]"

record Row =
  row_key :: string
  cells :: "(string \<times> Cell) list"

text \<open>
  One \<^verbatim>\<open>tr\<close>, keyed by the entity's id, with one \<^verbatim>\<open>td\<close> per column, keyed
  \<^verbatim>\<open>`${entity.id}-${col.id}`\<close>.
\<close>

definition renderRow :: "Column list \<Rightarrow> Entity \<Rightarrow> Row" where
  "renderRow cols entity =
     \<lparr>row_key = entity_id entity,
      cells = map (\<lambda>col. (entity_id entity @ ''-'' @ col_id col, cell col entity)) cols\<rparr>"

datatype Control = SearchInput string | Select string "string list"

datatype Summary = LoadingText | Showing nat string

datatype Body = EmptyState bool | Table "string list" "Row list"

datatype View = ErrorPanel string | Page bool "Control list" Summary Body

text \<open>What \<^verbatim>\<open>useQuery\<close> hands to the component.\<close>

record QueryResult =
  data :: "Entity list option"
  isLoading :: bool
  error :: "JsError option"

text \<open>
  The component. \<open>Page\<close> holds: whether the header shows the New Entity button, the three
  filter controls with their bound values, the results summary and the table area;
  \<open>EmptyState\<close> holds whether it shows the Create First Entity button.
\<close>

definition EntitiesPage ::
  "(string \<Rightarrow> bool) \<Rightarrow> (string \<Rightarrow> string) \<Rightarrow> FilterState \<Rightarrow> QueryResult \<Rightarrow> View" where
  "EntitiesPage can formatDate f q =
     (let entities = (case data q of None \<Rightarrow> [] | Some d \<Rightarrow> d)
      in case error q of
           Some e \<Rightarrow> ErrorPanel (message e)
         | None \<Rightarrow>
             Page (can ''entities:create'')
               [SearchInput (searchTerm f),
                Select (countryFilter f) ['''', ''AE'', ''SA'', ''EG''],
                Select (statusFilter f) ['''', ''ACTIVE'', ''PENDING'', ''ARCHIVED'']]
               (if isLoading q then LoadingText
                else Showing (length entities) (if length entities = 1 then ''y'' else ''ies''))
               (if length entities = 0 \<and> \<not> isLoading q
                then EmptyState (can ''entities:create'')
                else Table (map header (columns formatDate))
                       (map (renderRow (columns formatDate)) entities)))"

text \<open>Observations on a view.\<close>

fun viewRows :: "View \<Rightarrow> Row list" where
  "viewRows (Page _ _ _ (Table _ rows)) = rows"
| "viewRows _ = []"

fun viewControls :: "View \<Rightarrow> Control list" where
  "viewControls (Page _ controls _ _) = controls"
| "viewControls (ErrorPanel _) = []"

fun headerCreateButton :: "View \<Rightarrow> bool" where
  "headerCreateButton (Page b _ _ _) = b"
| "headerCreateButton (ErrorPanel _) = False"

fun emptyStateCreateButton :: "View \<Rightarrow> bool" where
  "emptyStateCreateButton (Page _ _ _ (EmptyState b)) = b"
| "emptyStateCreateButton _ = False"

fun errorPanel :: "View \<Rightarrow> string option" where
  "errorPanel (ErrorPanel m) = Some m"
| "errorPanel (Page _ _ _ _) = None"

subsection \<open>Example inputs\<close>

text \<open>The record of the end-to-end scenario, and the filter state of a fresh page visit.\<close>

definition acme :: Entity where
  "acme = \<lparr>entity_id = ''1'', name = ''Acme'', country = ''AE'', status = ''ACTIVE'',
       legalForm = None, createdAt = ''2024-01-01T00:00:00Z'',
       registrations = [\<lparr>reg_type = ''VAT'', reg_status = ''VERIFIED''\<rparr>,
                        \<lparr>reg_type = ''TRADE'', reg_status = ''PENDING''\<rparr>]\<rparr>"

definition noFilters :: FilterState where
  "noFilters = \<lparr>searchTerm = [], countryFilter = [], statusFilter = []\<rparr>"

section \<open>Properties\<close>

subsection \<open>Decimal numerals\<close>

lemma digit_value_digit: "d < 10 \<Longrightarrow> digit_value (digit d) = d"
proof -
  assume "d < 10"
  then have "d \<in> {0, 1, 2, 3, 4, 5, 6, 7, 8, 9}" by auto
  then show ?thesis
    by (auto simp: digit_value_def digit_def)
qed

lemma read_decimal_snoc: "read_decimal (s @ [c]) = 10 * read_decimal s + digit_value c"
  by (simp add: read_decimal_def)

lemma read_decimal_decimal: "read_decimal (decimal n) = n"
proof (induction n rule: decimal.induct)
  case (1 n)
  show ?case
  proof (cases "n < 10")
    case True
    then show ?thesis
      by (simp add: decimal.simps [of n] read_decimal_def digit_value_digit)
  next
    case False
    with 1 have "read_decimal (decimal (n div 10)) = n div 10" by simp
    with False show ?thesis
      by (simp add: decimal.simps [of n] read_decimal_snoc digit_value_digit)
  qed
qed

lemma decimal_0: "decimal 0 = ''0''"
  by (simp add: decimal.simps [of 0] digit_def)

lemma count_list_filter: "count_list (map f xs) v = length (filter (\<lambda>x. f x = v) xs)"
  by (induction xs) auto

subsection \<open>Registrations column\<close>

text \<open>
  Claim C4. For every entity the registrations cell is the decimal numeral of the number of
  registrations whose status is \<open>VERIFIED\<close>, a slash, and the decimal numeral of the number
  of registrations; the derivation has no failing branch, and with no registrations the
  cell is \<open>0/0\<close>.
\<close>

theorem registrationsCell_ratio:
  "registrationsCell entity =
     decimal (count_list (map reg_status (registrations entity)) ''VERIFIED'') @ ''/'' @
     decimal (length (registrations entity))
   \<and> registrationsCell (entity\<lparr>registrations := []\<rparr>) = ''0/0''"
  by (simp add: registrationsCell_def count_list_filter decimal_0)

subsection \<open>Legal form column\<close>

text \<open>
  Claim C10. An entity whose legal form is present but the empty string gets the em-dash
  placeholder, the same cell as an entity with no legal form, and so never an empty cell.
\<close>

theorem legalFormCell_empty:
  "legalForm entity = Some [] \<Longrightarrow>
     legalFormCell entity = emDash
     \<and> legalFormCell entity = legalFormCell (entity\<lparr>legalForm := None\<rparr>)
     \<and> legalFormCell entity \<noteq> []"
  by (simp add: legalFormCell_def emDash_def)

theorem legalFormCell_empty_witness:
  "legalFormCell \<lparr>entity_id = ''1'', name = ''Acme'', country = ''AE'', status = ''ACTIVE'',
       legalForm = Some [], createdAt = ''2024-01-01T00:00:00Z'', registrations = []\<rparr>
     = emDash"
  using legalFormCell_empty
    [of "\<lparr>entity_id = ''1'', name = ''Acme'', country = ''AE'', status = ''ACTIVE'',
       legalForm = Some [], createdAt = ''2024-01-01T00:00:00Z'', registrations = []\<rparr>"]
  by simp

subsection \<open>The error view\<close>

text \<open>
  Claim C1, as stated, fails: with the same cached record, the page shows a row while the
  query reports no error and shows no row once the query reports the failed fetch.
\<close>

theorem failed_fetch_blanks_rows:
  "viewRows (EntitiesPage (\<lambda>_. True) (\<lambda>s. s) noFilters
       \<lparr>data = Some [acme], isLoading = False, error = None\<rparr>) \<noteq> []
   \<and> viewRows (EntitiesPage (\<lambda>_. True) (\<lambda>s. s) noFilters
       \<lparr>data = Some [acme], isLoading = False, error = Some FetchFailed\<rparr>) = []"
  by (simp add: EntitiesPage_def)

text \<open>
  Claim C1, amended. When the query reports an error, the page is the error panel alone,
  showing that error's message; it renders no row, and the records the query still holds
  play no part in what is rendered.
\<close>

theorem error_renders_panel_only:
  "error q = Some e \<Longrightarrow>
     EntitiesPage can formatDate f q = ErrorPanel (message e)
     \<and> viewRows (EntitiesPage can formatDate f q) = []
     \<and> EntitiesPage can formatDate f (q\<lparr>data := d\<rparr>) = EntitiesPage can formatDate f q"
  by (simp add: EntitiesPage_def)

theorem error_renders_panel_only_witness:
  "EntitiesPage (\<lambda>_. True) (\<lambda>s. s) noFilters
       \<lparr>data = Some [acme], isLoading = False, error = Some FetchFailed\<rparr>
     = ErrorPanel ''Failed to fetch entities''"
  using error_renders_panel_only
    [of "\<lparr>data = Some [acme], isLoading = False, error = Some FetchFailed\<rparr>" FetchFailed
        "\<lambda>_. True" "\<lambda>s. s" noFilters]
  by (simp add: FetchFailed_def)

text \<open>
  Claim C3, as stated, fails: in the error view no filter control is rendered, only the
  panel with the message.
\<close>

theorem error_view_has_no_filter_controls:
  "viewControls (EntitiesPage (\<lambda>_. True) (\<lambda>s. s)
         \<lparr>searchTerm = ''acme'', countryFilter = ''AE'', statusFilter = []\<rparr>
         \<lparr>data = None, isLoading = False, error = Some FetchFailed\<rparr>) = []
   \<and> errorPanel (EntitiesPage (\<lambda>_. True) (\<lambda>s. s)
         \<lparr>searchTerm = ''acme'', countryFilter = ''AE'', statusFilter = []\<rparr>
         \<lparr>data = None, isLoading = False, error = Some FetchFailed\<rparr>)
       = Some ''Failed to fetch entities''"
  by (simp add: EntitiesPage_def FetchFailed_def)

text \<open>
  Claim C3, amended. The error is surfaced in a panel carrying its message, and that panel
  replaces the page: the search input, the country select and the status select, bound to
  the current filter state, are rendered exactly when the query reports no error.
\<close>

theorem filter_controls_iff_no_error:
  "viewControls (EntitiesPage can formatDate f q) =
     (if error q = None
      then [SearchInput (searchTerm f),
            Select (countryFilter f) ['''', ''AE'', ''SA'', ''EG''],
            Select (statusFilter f) ['''', ''ACTIVE'', ''PENDING'', ''ARCHIVED'']]
      else [])
   \<and> errorPanel (EntitiesPage can formatDate f q) = map_option message (error q)"
  by (simp add: EntitiesPage_def split: option.splits)

subsection \<open>Cache key\<close>

text \<open>
  Claim C2, as stated, fails: the key of a filter state with two empty fields holds both
  empty strings; nothing is omitted.
\<close>

theorem queryKey_keeps_empty_fields:
  "queryKey \<lparr>searchTerm = '''', countryFilter = ''AE'', statusFilter = ''''\<rparr>
     = [''entities'', '''', ''AE'', '''']
   \<and> [] \<in> set (queryKey \<lparr>searchTerm = '''', countryFilter = ''AE'', statusFilter = ''''\<rparr>)"
  by (simp add: queryKey_def)

text \<open>
  Claim C2, amended. The cache key is the four-element list of the tag \<open>entities\<close>, the
  search term, the country filter and the status filter, in this order and each as it is,
  empty or not; two filter states have the same key exactly when their three fields are
  equal, that is, when they are the same filter state.
\<close>

theorem queryKey_verbatim:
  "queryKey f = [''entities'', searchTerm f, countryFilter f, statusFilter f]
   \<and> length (queryKey f) = 4
   \<and> queryKey f ! 0 = ''entities''
   \<and> queryKey f ! 1 = searchTerm f
   \<and> queryKey f ! 2 = countryFilter f
   \<and> queryKey f ! 3 = statusFilter f
   \<and> (queryKey f = queryKey g) =
       (searchTerm f = searchTerm g \<and> countryFilter f = countryFilter g
        \<and> statusFilter f = statusFilter g)
   \<and> (queryKey f = queryKey g) = (f = g)"
  by (cases f, cases g) (auto simp: queryKey_def)

subsection \<open>Country and status columns\<close>

lemma getProp_countryMap_other:
  "k \<notin> {''AE'', ''SA'', ''EG''} \<Longrightarrow> k \<notin> set objectPrototypeKeys \<Longrightarrow>
     getProp countryMap k = Undefined"
  by (simp add: getProp_def countryMap_def)

text \<open>
  The fallback works for every code that is neither listed nor the name of a property of
  \<^verbatim>\<open>Object.prototype\<close>.
\<close>

lemma countryCell_fallback:
  "country entity \<notin> {''AE'', ''SA'', ''EG''} \<Longrightarrow> country entity \<notin> set objectPrototypeKeys \<Longrightarrow>
     countryCell entity = Str (country entity)"
  by (simp add: countryCell_def getProp_countryMap_other js_or_def)

lemma statusCell_fallback:
  "status entity \<notin> {''ACTIVE'', ''PENDING'', ''ARCHIVED''} \<Longrightarrow>
   status entity \<notin> set objectPrototypeKeys \<Longrightarrow>
     statusCell entity = (Str ''bg-gray-100 text-gray-800'', status entity)"
  by (simp add: statusCell_def statusStyle_def getProp_def statusStyles_def js_or_def)

lemma countryCell_FR: "countryCell (acme\<lparr>country := ''FR''\<rparr>) = Str ''FR''"
  by (simp add: countryCell_def getProp_def countryMap_def js_or_def objectPrototypeKeys_def)

lemma statusCell_SUSPENDED:
  "statusCell (acme\<lparr>status := ''SUSPENDED''\<rparr>) = (Str ''bg-gray-100 text-gray-800'', ''SUSPENDED'')"
  by (simp add: statusCell_def statusStyle_def getProp_def statusStyles_def js_or_def
      objectPrototypeKeys_def)

text \<open>
  Claim C5. The country cell of an entity with an unlisted code should be the raw code, and
  the status badge of an entity with an unlisted status should have the neutral style. For
  the code and the status \<open>constructor\<close>, which name a property every object literal
  inherits, the lookup finds the inherited function: the country cell is that function, not
  the raw code, and the badge style is that function, not the neutral style.
\<close>

theorem inherited_key_defeats_fallback:
  "country (acme\<lparr>country := ''constructor''\<rparr>) \<notin> {''AE'', ''SA'', ''EG''}
   \<and> countryCell (acme\<lparr>country := ''constructor''\<rparr>) = Inherited ''constructor''
   \<and> countryCell (acme\<lparr>country := ''constructor''\<rparr>) \<noteq> Str ''constructor''
   \<and> status (acme\<lparr>status := ''constructor''\<rparr>) \<notin> {''ACTIVE'', ''PENDING'', ''ARCHIVED''}
   \<and> statusCell (acme\<lparr>status := ''constructor''\<rparr>) = (Inherited ''constructor'', ''constructor'')
   \<and> fst (statusCell (acme\<lparr>status := ''constructor''\<rparr>)) \<noteq> Str ''bg-gray-100 text-gray-800''"
  by (simp add: countryCell_def statusCell_def statusStyle_def getProp_def countryMap_def
      statusStyles_def js_or_def objectPrototypeKeys_def)

subsection \<open>The query function\<close>

text \<open>
  Claim C6. Whenever the response is not ok, the query function fails with the one error
  whose message is \<open>Failed to fetch entities\<close>, whatever the status code and the body of
  the response.
\<close>

theorem queryFn_not_ok:
  "fetch (requestUrl f) = Resolved response \<Longrightarrow> \<not> ok response \<Longrightarrow>
     queryFn fetch f = Inl FetchFailed \<and> message FetchFailed = ''Failed to fetch entities''"
  by (simp add: queryFn_def FetchFailed_def)

theorem queryFn_not_ok_witness:
  "queryFn (\<lambda>url. Resolved \<lparr>ok = False, httpStatus = 403, body = BodyData (Some [acme])\<rparr>) noFilters
     = Inl FetchFailed
   \<and> queryFn (\<lambda>url. Resolved \<lparr>ok = False, httpStatus = 500, body = BodyThrows (Error ''x'')\<rparr>) noFilters
     = Inl FetchFailed"
  using queryFn_not_ok
    [of "\<lambda>url. Resolved \<lparr>ok = False, httpStatus = 403, body = BodyData (Some [acme])\<rparr>" noFilters
        "\<lparr>ok = False, httpStatus = 403, body = BodyData (Some [acme])\<rparr>"]
    queryFn_not_ok
    [of "\<lambda>url. Resolved \<lparr>ok = False, httpStatus = 500, body = BodyThrows (Error ''x'')\<rparr>" noFilters
        "\<lparr>ok = False, httpStatus = 500, body = BodyThrows (Error ''x'')\<rparr>"]
  by simp

subsection \<open>Request construction\<close>

text \<open>
  Claim C7. The request parameters are the entries \<open>search\<close>, \<open>country\<close> and \<open>status\<close>
  of the filter fields that are not empty, in that order, each with the field's value: no
  parameter has an empty value, a parameter is absent exactly when its field is empty, and
  the URL is the path followed by the serialisation of these parameters.
\<close>

theorem requestParams_nonempty_only:
  "requestParams f =
     filter (\<lambda>p. snd p \<noteq> [])
       [(''search'', searchTerm f), (''country'', countryFilter f), (''status'', statusFilter f)]
   \<and> (\<forall>p \<in> set (requestParams f). snd p \<noteq> [])
   \<and> map_of (requestParams f) ''search'' = (if searchTerm f = [] then None else Some (searchTerm f))
   \<and> map_of (requestParams f) ''country'' =
       (if countryFilter f = [] then None else Some (countryFilter f))
   \<and> map_of (requestParams f) ''status'' = (if statusFilter f = [] then None else Some (statusFilter f))
   \<and> requestUrl f = ''/api/entities?'' @ serialize (requestParams f)"
  by (simp add: requestParams_def requestUrl_def)

theorem requestParams_nonempty_only_witness:
  "requestParams \<lparr>searchTerm = '''', countryFilter = ''AE'', statusFilter = ''''\<rparr> = [(''country'', ''AE'')]
   \<and> requestUrl \<lparr>searchTerm = '''', countryFilter = ''AE'', statusFilter = ''''\<rparr>
       = ''/api/entities?country=AE''"
  using requestParams_nonempty_only
    [of "\<lparr>searchTerm = '''', countryFilter = ''AE'', statusFilter = ''''\<rparr>"]
  by (simp add: urlencode_def encodeByte_def unreserved_def)

subsection \<open>Capability gating and rows\<close>

lemma renderRow_actions:
  "(row_key (renderRow (columns formatDate) entity) @ ''-actions'',
    ActionLink (''/admin/entities/'' @ row_key (renderRow (columns formatDate) entity)))
   \<in> set (cells (renderRow (columns formatDate) entity))"
  by (simp add: renderRow_def columns_def)

lemma viewRows_EntitiesPage:
  "viewRows (EntitiesPage can formatDate f q) =
     (case error q of
        Some e \<Rightarrow> []
      | None \<Rightarrow> (case data q of None \<Rightarrow> [] | Some d \<Rightarrow> map (renderRow (columns formatDate)) d))"
  by (simp add: EntitiesPage_def split: option.splits)

text \<open>
  Claim C8, as stated, fails: with the capability granted, the error view shows neither
  creation button.
\<close>

theorem create_button_absent_in_error_view:
  "(\<lambda>_. True) ''entities:create''
   \<and> \<not> headerCreateButton (EntitiesPage (\<lambda>_. True) (\<lambda>s. s) noFilters
         \<lparr>data = Some [], isLoading = False, error = Some FetchFailed\<rparr>)
   \<and> \<not> emptyStateCreateButton (EntitiesPage (\<lambda>_. True) (\<lambda>s. s) noFilters
         \<lparr>data = Some [], isLoading = False, error = Some FetchFailed\<rparr>)"
  by (simp add: EntitiesPage_def)

text \<open>
  Claim C8, amended. The header's creation button is rendered exactly when the capability
  check for \<open>entities:create\<close> succeeds and the query reports no error; the empty
  state's creation button exactly when, in addition, there is no record and the query is
  not loading. The rows do not depend on the capability check, and every rendered row has
  the action link to its record.
\<close>

theorem create_gated_rows_ungated:
  "headerCreateButton (EntitiesPage can formatDate f q) = (can ''entities:create'' \<and> error q = None)
   \<and> emptyStateCreateButton (EntitiesPage can formatDate f q) =
       (can ''entities:create'' \<and> error q = None \<and> (data q = None \<or> data q = Some [])
        \<and> \<not> isLoading q)
   \<and> viewRows (EntitiesPage can formatDate f q) = viewRows (EntitiesPage can' formatDate f q)
   \<and> (\<forall>r \<in> set (viewRows (EntitiesPage can formatDate f q)).
         (row_key r @ ''-actions'', ActionLink (''/admin/entities/'' @ row_key r)) \<in> set (cells r))"
proof -
  have hdr: "headerCreateButton (EntitiesPage can formatDate f q)
      = (can ''entities:create'' \<and> error q = None)"
    by (simp add: EntitiesPage_def split: option.splits)
  have emp: "emptyStateCreateButton (EntitiesPage can formatDate f q) =
       (can ''entities:create'' \<and> error q = None \<and> (data q = None \<or> data q = Some [])
        \<and> \<not> isLoading q)"
    by (auto simp: EntitiesPage_def split: option.splits)
  have rows: "viewRows (EntitiesPage can formatDate f q) = viewRows (EntitiesPage can' formatDate f q)"
    by (simp add: viewRows_EntitiesPage)
  have act: "\<forall>r \<in> set (viewRows (EntitiesPage can formatDate f q)).
         (row_key r @ ''-actions'', ActionLink (''/admin/entities/'' @ row_key r)) \<in> set (cells r)"
    using renderRow_actions by (auto simp: viewRows_EntitiesPage split: option.splits)
  from hdr emp rows act show ?thesis by blast
qed

theorem create_gated_rows_ungated_witness:
  "\<not> headerCreateButton (EntitiesPage (\<lambda>_. False) (\<lambda>s. s) noFilters
        \<lparr>data = Some [acme], isLoading = False, error = None\<rparr>)
   \<and> viewRows (EntitiesPage (\<lambda>_. False) (\<lambda>s. s) noFilters
        \<lparr>data = Some [acme], isLoading = False, error = None\<rparr>)
       = [renderRow (columns (\<lambda>s. s)) acme]
   \<and> (''1-actions'', ActionLink ''/admin/entities/1'') \<in> set (cells (renderRow (columns (\<lambda>s. s)) acme))"
  using create_gated_rows_ungated
    [of "\<lambda>_. False" "\<lambda>s. s" noFilters "\<lparr>data = Some [acme], isLoading = False, error = None\<rparr>"]
  by (simp add: viewRows_EntitiesPage renderRow_def acme_def)

text \<open>
  Claim C9. When the query reports no error and holds at least one record, the table has
  exactly one row per record, in the order of the records: row \<open>i\<close> is the rendering of
  record \<open>i\<close>, with nothing sorted, filtered out or merged.
\<close>

theorem populated_rows_in_order:
  "error q = None \<Longrightarrow> data q = Some es \<Longrightarrow> es \<noteq> [] \<Longrightarrow>
     viewRows (EntitiesPage can formatDate f q) = map (renderRow (columns formatDate)) es
     \<and> length (viewRows (EntitiesPage can formatDate f q)) = length es
     \<and> map row_key (viewRows (EntitiesPage can formatDate f q)) = map entity_id es
     \<and> (\<forall>i < length es.
          viewRows (EntitiesPage can formatDate f q) ! i = renderRow (columns formatDate) (es ! i))"
  by (simp add: viewRows_EntitiesPage renderRow_def comp_def)

theorem populated_rows_in_order_witness:
  "map row_key (viewRows (EntitiesPage (\<lambda>_. False) (\<lambda>s. s) noFilters
        \<lparr>data = Some [acme\<lparr>entity_id := ''2''\<rparr>, acme, acme\<lparr>entity_id := ''2''\<rparr>],
         isLoading = False, error = None\<rparr>))
     = [''2'', ''1'', ''2'']"
  using populated_rows_in_order
    [of "\<lparr>data = Some [acme\<lparr>entity_id := ''2''\<rparr>, acme, acme\<lparr>entity_id := ''2''\<rparr>],
         isLoading = False, error = None\<rparr>"
        "[acme\<lparr>entity_id := ''2''\<rparr>, acme, acme\<lparr>entity_id := ''2''\<rparr>]"
        "\<lambda>_. False" "\<lambda>s. s" noFilters]
  by (simp add: acme_def renderRow_def)


end
